theory Spec2Isabelle
  imports Main "HOL-Library.Sublist" "HOL-Library.AList"
begin

section \<open>Path arithmetic used by the loaders\<close>

text \<open>
  Both loaders (\<^verbatim>\<open>m_experiment_setup.py\<close> and \<^verbatim>\<open>m_node_setup.py\<close>) call
  \<^verbatim>\<open>os.path.join\<close>, \<^verbatim>\<open>os.path.abspath\<close> and \<^verbatim>\<open>os.path.commonprefix\<close>.
  The functions below follow the POSIX implementation of the Python standard library
  (\<^verbatim>\<open>posixpath.py\<close>, \<^verbatim>\<open>genericpath.py\<close>). Paths are strings; the current working
  directory that \<^verbatim>\<open>abspath\<close> reads from the process is the explicit argument \<open>cwd\<close>.
\<close>

definition isabs :: "string \<Rightarrow> bool" where
  "isabs p = prefix ''/'' p"

text \<open>\<^verbatim>\<open>os.path.join(a, b)\<close> with exactly two arguments, the only form the loaders use.\<close>

definition join :: "string \<Rightarrow> string \<Rightarrow> string" where
  "join a b =
     (if prefix ''/'' b then b
      else if a = [] then a @ b
      else if last a = CHR ''/'' then a @ b
      else a @ ''/'' @ b)"

text \<open>\<^verbatim>\<open>s.split(sep)\<close> for a one-character separator: \<^verbatim>\<open>''.split('/') == ['']\<close>.\<close>

fun py_split :: "char \<Rightarrow> string \<Rightarrow> string list" where
  "py_split sep [] = [[]]"
| "py_split sep (c # cs) =
     (if c = sep then [] # py_split sep cs
      else (case py_split sep cs of
              [] \<Rightarrow> [[c]]
            | w # ws \<Rightarrow> (c # w) # ws))"

text \<open>\<^verbatim>\<open>sep.join(words)\<close>.\<close>

fun py_join :: "string \<Rightarrow> string list \<Rightarrow> string" where
  "py_join sep [] = []"
| "py_join sep [w] = w"
| "py_join sep (w # ws) = w @ sep @ py_join sep ws"

text \<open>
  \<^verbatim>\<open>posixpath.normpath\<close>. One or two leading slashes are kept, three or more collapse
  to one. The loop over the components keeps the list \<open>new_comps\<close>; a \<^verbatim>\<open>..\<close> component
  is appended when the path is relative and nothing can be popped or when the last kept
  component is itself \<^verbatim>\<open>..\<close>, it pops the last kept component otherwise, and it is
  dropped at the root of an absolute path.
\<close>

definition initial_slashes :: "string \<Rightarrow> nat" where
  "initial_slashes path =
     (if prefix ''///'' path then 1
      else if prefix ''//'' path then 2
      else if prefix ''/'' path then 1
      else 0)"

fun norm_comps :: "nat \<Rightarrow> string list \<Rightarrow> string list \<Rightarrow> string list" where
  "norm_comps ini [] new_comps = new_comps"
| "norm_comps ini (c # comps) new_comps =
     (if c = [] then norm_comps ini comps new_comps
      else if c = ''.'' then norm_comps ini comps new_comps
      else if c = ''..'' then
        (if new_comps = [] then
           (if ini = 0 then norm_comps ini comps (new_comps @ [c])
            else norm_comps ini comps new_comps)
         else if last new_comps = ''..'' then norm_comps ini comps (new_comps @ [c])
         else norm_comps ini comps (butlast new_comps))
      else norm_comps ini comps (new_comps @ [c]))"

definition normpath :: "string \<Rightarrow> string" where
  "normpath path =
     (if path = [] then ''.''
      else
        (let ini = initial_slashes path;
             comps = norm_comps ini (py_split CHR ''/'' path) [];
             p = replicate ini CHR ''/'' @ py_join ''/'' comps
         in if p = [] then ''.'' else p))"

definition abspath :: "string \<Rightarrow> string \<Rightarrow> string" where
  "abspath cwd path = normpath (if isabs path then path else join cwd path)"

text \<open>
  \<^verbatim>\<open>os.path.commonprefix([a, b])\<close>: the library scans the smaller of the two strings
  against the larger one character by character and returns the part before the first
  difference, which is the longest common prefix of the two strings as character lists.
\<close>

fun commonprefix :: "string \<Rightarrow> string \<Rightarrow> string" where
  "commonprefix (x # xs) (y # ys) = (if x = y then x # commonprefix xs ys else [])"
| "commonprefix _ _ = []"

section \<open>Exceptions\<close>

text \<open>
  The two message templates that the loaders take from \<^verbatim>\<open>m_common\<close> are kept symbolic:
  an exception carries the template together with the text that the loader passes to
  \<^verbatim>\<open>format\<close>. Where the loader splices \<^verbatim>\<open>str(list)\<close> into the text,
  the list stays a list (\<open>ListText\<close>).
\<close>

datatype template = ERROR_MISSING_ARGUMENT_IN_ARCHIVE | ERROR_MISSING_ARGUMENT_IN_MANIFEST

datatype text_piece = Text string | ListText "string list"

datatype exn =
    Exception string
  | ExperimentSetupException template "text_piece list"
  | NodeSetupException template "text_piece list"
  | KeyError
  | TypeError
  | ValueError
  | RuntimeError
  | AttributeError
  | FileNotFoundError
  | NotADirectoryError
  | IsADirectoryError
  | YAMLError

section \<open>Archives and the file system\<close>

text \<open>
  A tar member is a name and what it holds: a regular file with its content, or a
  directory. The file system maps canonical absolute paths to nodes. Links are not part
  of the model.
\<close>

datatype node = File string | Dir

datatype tarinfo = TarInfo (name: string) (node: node)

type_synonym filesystem = "string \<rightharpoonup> node"

text \<open>
  \<^verbatim>\<open>tar.extractall(path)\<close> writes every member at \<^verbatim>\<open>os.path.join(path, member.name)\<close>;
  the operating system resolves that path, which without links is its normal form.
\<close>

definition extract_member :: "string \<Rightarrow> string \<Rightarrow> tarinfo \<Rightarrow> filesystem \<Rightarrow> filesystem" where
  "extract_member cwd path m fs = fs(abspath cwd (join path (name m)) \<mapsto> node m)"

definition extractall :: "string \<Rightarrow> string \<Rightarrow> tarinfo list \<Rightarrow> filesystem \<Rightarrow> filesystem" where
  "extractall cwd path ms fs = fold (extract_member cwd path) ms fs"

subsection \<open>\<^verbatim>\<open>is_within_directory\<close> and \<^verbatim>\<open>safe_extract\<close> (identical in both loaders)\<close>

definition is_within_directory :: "string \<Rightarrow> string \<Rightarrow> string \<Rightarrow> bool" where
  "is_within_directory cwd directory target =
     (let abs_directory = abspath cwd directory;
          abs_target = abspath cwd target;
          common = commonprefix abs_directory abs_target
      in common = abs_directory)"

text \<open>The \<^verbatim>\<open>for member in tar.getmembers()\<close> loop of \<^verbatim>\<open>safe_extract\<close>.\<close>

fun check_members :: "string \<Rightarrow> string \<Rightarrow> tarinfo list \<Rightarrow> exn + unit" where
  "check_members cwd path [] = Inr ()"
| "check_members cwd path (member # members) =
     (let member_path = join path (name member)
      in if is_within_directory cwd path member_path then check_members cwd path members
         else Inl (Exception ''Attempted Path Traversal in Tar File''))"

definition safe_extract ::
  "string \<Rightarrow> tarinfo list \<Rightarrow> string \<Rightarrow> filesystem \<Rightarrow> (exn + unit) \<times> filesystem" where
  "safe_extract cwd tar path fs =
     (case check_members cwd path tar of
        Inl e \<Rightarrow> (Inl e, fs)
      | Inr _ \<Rightarrow> (Inr (), extractall cwd path tar fs))"

text \<open>
  Whether a canonical path lies within a directory given by its canonical path: it is
  the directory itself or continues it after a separator.
\<close>

definition lies_within :: "string \<Rightarrow> string \<Rightarrow> bool" where
  "lies_within root p = (p = root \<or> prefix (root @ ''/'') p)"

subsection \<open>File-system primitives\<close>

definition mkdir :: "string \<Rightarrow> string \<Rightarrow> filesystem \<Rightarrow> filesystem" where
  "mkdir cwd path fs = fs(abspath cwd path \<mapsto> Dir)"

definition write_file :: "string \<Rightarrow> string \<Rightarrow> string \<Rightarrow> filesystem \<Rightarrow> filesystem" where
  "write_file cwd path content fs = fs(abspath cwd path \<mapsto> File content)"

definition read_file :: "string \<Rightarrow> string \<Rightarrow> filesystem \<Rightarrow> exn + string" where
  "read_file cwd path fs =
     (case fs (abspath cwd path) of
        None \<Rightarrow> Inl FileNotFoundError
      | Some Dir \<Rightarrow> Inl IsADirectoryError
      | Some (File content) \<Rightarrow> Inr content)"

definition isfile :: "string \<Rightarrow> filesystem \<Rightarrow> string \<Rightarrow> bool" where
  "isfile cwd fs path =
     (case fs (abspath cwd path) of
        Some (File content) \<Rightarrow> True
      | _ \<Rightarrow> False)"

text \<open>
  \<^verbatim>\<open>shutil.rmtree(path)\<close> with its default \<^verbatim>\<open>ignore_errors=False\<close>: a path that does
  not exist raises, as does a path that is not a directory.
\<close>

definition rmtree :: "string \<Rightarrow> string \<Rightarrow> filesystem \<Rightarrow> (exn + unit) \<times> filesystem" where
  "rmtree cwd path fs =
     (let d = abspath cwd path
      in case fs d of
           None \<Rightarrow> (Inl FileNotFoundError, fs)
         | Some (File content) \<Rightarrow> (Inl NotADirectoryError, fs)
         | Some Dir \<Rightarrow> (Inr (), (\<lambda>p. if lies_within d p then None else fs p)))"

section \<open>Manifest documents\<close>

text \<open>
  What \<^verbatim>\<open>yaml.load\<close> returns: strings, integers, the null value, sequences and mappings
  with string keys (an association list in insertion order, keys distinct, as a Python
  dictionary). Other scalar kinds are not modelled.
\<close>

datatype yaml = YStr string | YInt int | YNull | YSeq "yaml list" | YMap "(string \<times> yaml) list"

text \<open>\<^verbatim>\<open>v[key]\<close> for a string key: only a mapping can be subscripted by a string.\<close>

definition getitem :: "yaml \<Rightarrow> string \<Rightarrow> exn + yaml" where
  "getitem v key =
     (case v of
        YMap items \<Rightarrow> (case map_of items key of Some x \<Rightarrow> Inr x | None \<Rightarrow> Inl KeyError)
      | _ \<Rightarrow> Inl TypeError)"

text \<open>\<^verbatim>\<open>v[key] = x\<close>.\<close>

definition setitem :: "yaml \<Rightarrow> string \<Rightarrow> yaml \<Rightarrow> exn + yaml" where
  "setitem v key x =
     (case v of
        YMap items \<Rightarrow> Inr (YMap (AList.update key x items))
      | _ \<Rightarrow> Inl TypeError)"

text \<open>\<^verbatim>\<open>for x in v\<close>: a mapping yields its keys, a string its characters.\<close>

definition py_iter :: "yaml \<Rightarrow> exn + yaml list" where
  "py_iter v =
     (case v of
        YSeq xs \<Rightarrow> Inr xs
      | YMap items \<Rightarrow> Inr (map (\<lambda>kv. YStr (fst kv)) items)
      | YStr s \<Rightarrow> Inr (map (\<lambda>c. YStr [c]) s)
      | _ \<Rightarrow> Inl TypeError)"

text \<open>The truth value of \<^verbatim>\<open>if v:\<close>.\<close>

definition truthy :: "yaml \<Rightarrow> bool" where
  "truthy v =
     (case v of
        YStr s \<Rightarrow> s \<noteq> []
      | YInt i \<Rightarrow> i \<noteq> 0
      | YNull \<Rightarrow> False
      | YSeq xs \<Rightarrow> xs \<noteq> []
      | YMap items \<Rightarrow> items \<noteq> [])"

text \<open>Sequences and mappings cannot be dictionary keys.\<close>

definition hashable :: "yaml \<Rightarrow> bool" where
  "hashable v = (case v of YSeq xs \<Rightarrow> False | YMap items \<Rightarrow> False | _ \<Rightarrow> True)"

text \<open>
  \<^verbatim>\<open>'{0}'.format(v)\<close>: a string is inserted as it is; for any other value the text
  is Python's \<^verbatim>\<open>str(v)\<close>, which is taken as the parameter \<open>py_str\<close>.
\<close>

definition format0 :: "(yaml \<Rightarrow> string) \<Rightarrow> yaml \<Rightarrow> string" where
  "format0 py_str v = (case v of YStr s \<Rightarrow> s | _ \<Rightarrow> py_str v)"

text \<open>
  \<^verbatim>\<open>s.replace(old, new)\<close>: every non-overlapping occurrence of \<open>old\<close>, found from the
  left, becomes \<open>new\<close>; an empty \<open>old\<close> matches before every character and at the end.
\<close>

fun replace_occurrences :: "string \<Rightarrow> string \<Rightarrow> string \<Rightarrow> string" where
  "replace_occurrences old new [] = []"
| "replace_occurrences old new (c # cs) =
     (if prefix old (c # cs) then new @ replace_occurrences old new (drop (length old - 1) cs)
      else c # replace_occurrences old new cs)"

definition replace :: "string \<Rightarrow> string \<Rightarrow> string \<Rightarrow> string" where
  "replace s old new =
     (if old = [] then new @ concat (map (\<lambda>c. c # new) s)
      else replace_occurrences old new s)"

section \<open>Schema walk (both loaders)\<close>

text \<open>
  The inner loop \<^verbatim>\<open>for element in path_elements\<close>: the bare \<^verbatim>\<open>except\<close> turns any
  failure of \<^verbatim>\<open>iterator[element]\<close> into the loader's exception; \<open>walk\<close> returns the
  element at which that happens.
\<close>

fun walk :: "yaml \<Rightarrow> string list \<Rightarrow> string option" where
  "walk iterator [] = None"
| "walk iterator (element # path_elements) =
     (case getitem iterator element of
        Inl e \<Rightarrow> Some element
      | Inr v \<Rightarrow> walk v path_elements)"

fun experiment_validate_manifest :: "yaml \<Rightarrow> string list \<Rightarrow> exn + unit" where
  "experiment_validate_manifest manifest [] = Inr ()"
| "experiment_validate_manifest manifest (path # paths) =
     (case walk manifest (py_split CHR ''/'' path) of
        Some element \<Rightarrow>
          Inl (ExperimentSetupException ERROR_MISSING_ARGUMENT_IN_ARCHIVE
                 [Text (''element missing: '' @ element @ '' in: '' @ path)])
      | None \<Rightarrow> experiment_validate_manifest manifest paths)"

fun node_validate_manifest :: "yaml \<Rightarrow> string list \<Rightarrow> exn + unit" where
  "node_validate_manifest manifest [] = Inr ()"
| "node_validate_manifest manifest (path # paths) =
     (case walk manifest (py_split CHR ''/'' path) of
        Some element \<Rightarrow>
          Inl (NodeSetupException ERROR_MISSING_ARGUMENT_IN_MANIFEST [Text element])
      | None \<Rightarrow> node_validate_manifest manifest paths)"


section \<open>The experiment loader (\<^verbatim>\<open>m_experiment_setup.py\<close>)\<close>

definition EXPERIMENT_PROFILE_FILENAME :: string where
  "EXPERIMENT_PROFILE_FILENAME = ''behavior.tar.gz''"

definition FIRMWARES_SUBDIR :: string where
  "FIRMWARES_SUBDIR = ''firmwares''"

definition EXPERIMENT_MANIFEST :: string where
  "EXPERIMENT_MANIFEST = ''manifest.yml''"

definition CONFIGURATION_MANDATORY_MEMBERS :: "string list" where
  "CONFIGURATION_MANDATORY_MEMBERS = [FIRMWARES_SUBDIR, EXPERIMENT_MANIFEST]"

definition EXPERIMENT_MANIFEST_MANDATORY_MEMBERS :: "string list" where
  "EXPERIMENT_MANIFEST_MANDATORY_MEMBERS = [''firmwares'', ''schedule'']"

text \<open>An archive: the bytes that are saved into the workspace and the members they encode.\<close>

datatype archive = Archive (raw: string) (getmembers: "tarinfo list")

definition getnames :: "archive \<Rightarrow> string list" where
  "getnames a = map name (getmembers a)"

text \<open>
  The loop \<^verbatim>\<open>for firmware in self.manifest['firmwares']\<close>. The dictionary
  \<^verbatim>\<open>self.firmwares\<close> is an association list in insertion order; it is returned with the
  outcome, so that its content when an exception leaves the loop can be read.
  \<^verbatim>\<open>os.path.join\<close> raises \<^verbatim>\<open>TypeError\<close> for a file name that is not a string, and the
  store raises it for an id that cannot be hashed.
\<close>

fun register_firmwares ::
  "(string \<Rightarrow> bool) \<Rightarrow> string \<Rightarrow> yaml list \<Rightarrow> (yaml \<times> string) list \<Rightarrow>
     (exn + unit) \<times> (yaml \<times> string) list" where
  "register_firmwares is_file firmwares_dir [] firmwares = (Inr (), firmwares)"
| "register_firmwares is_file firmwares_dir (firmware # rest) firmwares =
     (case getitem firmware ''id'' of
        Inl e \<Rightarrow> (Inl e, firmwares)
      | Inr fid \<Rightarrow>
          (case getitem firmware ''file'' of
             Inl e \<Rightarrow> (Inl e, firmwares)
           | Inr (YStr ffile) \<Rightarrow>
               (if hashable fid then
                  (let firmwares' = AList.update fid (join firmwares_dir ffile) firmwares
                   in if is_file (join firmwares_dir ffile)
                      then register_firmwares is_file firmwares_dir rest firmwares'
                      else (Inl (ExperimentSetupException ERROR_MISSING_ARGUMENT_IN_ARCHIVE
                                   [Text ffile]), firmwares'))
                else (Inl TypeError, firmwares))
           | Inr other \<Rightarrow> (Inl TypeError, firmwares)))"

datatype experiment_loader =
  ExperimentLoader (exp_temp_directory: string) (exp_manifest: yaml)
    (exp_firmwares: "(yaml \<times> string) list") (exp_schedule: yaml)

text \<open>Lines 131 to 159: read and validate the manifest, register firmwares and schedule.\<close>

definition experiment_configure ::
  "string \<Rightarrow> string \<Rightarrow> (string \<Rightarrow> exn + yaml) \<Rightarrow> filesystem \<Rightarrow> exn + experiment_loader" where
  "experiment_configure cwd temp_directory yaml_load fs =
     (case read_file cwd (join temp_directory EXPERIMENT_MANIFEST) fs of
        Inl e \<Rightarrow> Inl e
      | Inr content \<Rightarrow>
     (case yaml_load content of
        Inl e \<Rightarrow> Inl e
      | Inr manifest \<Rightarrow>
     (case experiment_validate_manifest manifest EXPERIMENT_MANIFEST_MANDATORY_MEMBERS of
        Inl e \<Rightarrow> Inl e
      | Inr u \<Rightarrow>
     (case getitem manifest ''firmwares'' of
        Inl e \<Rightarrow> Inl e
      | Inr table \<Rightarrow>
     (case py_iter table of
        Inl e \<Rightarrow> Inl e
      | Inr entries \<Rightarrow>
     (case register_firmwares (isfile cwd fs) (join temp_directory FIRMWARES_SUBDIR) entries [] of
        (Inl e, firmwares) \<Rightarrow> Inl e
      | (Inr u, firmwares) \<Rightarrow>
     (case getitem manifest ''schedule'' of
        Inl e \<Rightarrow> Inl e
      | Inr schedule \<Rightarrow>
          Inr (ExperimentLoader temp_directory manifest firmwares schedule))))))))"

text \<open>
  \<^verbatim>\<open>Loader.__init__\<close>. \<open>tmp\<close> is the directory that \<^verbatim>\<open>tempfile.mkdtemp()\<close> creates,
  \<open>yaml_load\<close> the external parser. Lines 87 to 129 create the workspace, store the
  archive in it, compare the member names with the mandatory ones and extract.
\<close>

definition experiment_Loader ::
  "string \<Rightarrow> string \<Rightarrow> (string \<Rightarrow> exn + yaml) \<Rightarrow> archive \<Rightarrow> filesystem \<Rightarrow>
     (exn + experiment_loader) \<times> filesystem" where
  "experiment_Loader cwd tmp yaml_load behavior_archive fs =
     (let temp_directory = tmp;
          fs1 = mkdir cwd temp_directory fs;
          archive_path = join temp_directory EXPERIMENT_PROFILE_FILENAME;
          fs2 = write_file cwd archive_path (raw behavior_archive) fs1;
          archive_contents = getnames behavior_archive
      in if list_ex (\<lambda>elt. elt \<notin> set archive_contents) CONFIGURATION_MANDATORY_MEMBERS then
           (let missing_elements =
                  filter (\<lambda>elt. elt \<notin> set archive_contents) CONFIGURATION_MANDATORY_MEMBERS
            in (Inl (ExperimentSetupException ERROR_MISSING_ARGUMENT_IN_ARCHIVE
                       [Text ''missing elements: '', ListText missing_elements,
                        Text '' of archive_contents: '', ListText archive_contents]), fs2))
         else
           (case safe_extract cwd (getmembers behavior_archive) temp_directory fs2 of
              (Inl e, fs3) \<Rightarrow> (Inl e, fs3)
            | (Inr u, fs3) \<Rightarrow> (experiment_configure cwd temp_directory yaml_load fs3, fs3)))"

text \<open>\<^verbatim>\<open>Loader.clean\<close>.\<close>

definition experiment_clean ::
  "string \<Rightarrow> experiment_loader \<Rightarrow> filesystem \<Rightarrow> (exn + unit) \<times> filesystem" where
  "experiment_clean cwd self fs = rmtree cwd (exp_temp_directory self) fs"


section \<open>The node-profile loader (\<^verbatim>\<open>m_node_setup.py\<close>)\<close>

definition NODE_PROFILE_FILENAME :: string where
  "NODE_PROFILE_FILENAME = ''node-profile.tar.gz''"

definition CONTROLLER_SUBDIR :: string where
  "CONTROLLER_SUBDIR = ''controller''"

definition CONTROLLER_EXECUTABLES_SUBDIR :: string where
  "CONTROLLER_EXECUTABLES_SUBDIR = ''controller/executables''"

definition CONTROLLER_CONFIGURATION_FILES_SUBDIR :: string where
  "CONTROLLER_CONFIGURATION_FILES_SUBDIR = ''controller/configuration_files''"

definition SERIAL_SUBDIR :: string where
  "SERIAL_SUBDIR = ''serial''"

definition PROFILE_MANIFEST :: string where
  "PROFILE_MANIFEST = ''manifest.yml''"

definition PROFILE_MANDATORY_MEMBERS :: "string list" where
  "PROFILE_MANDATORY_MEMBERS =
     [CONTROLLER_SUBDIR, CONTROLLER_EXECUTABLES_SUBDIR, CONTROLLER_CONFIGURATION_FILES_SUBDIR,
      SERIAL_SUBDIR, PROFILE_MANIFEST]"

definition NODE_MANIFEST_MANDATORY_MEMBERS :: "string list" where
  "NODE_MANIFEST_MANDATORY_MEMBERS =
     [''hardware'', ''controller'', ''controller/commands'', ''controller/commands/load'',
      ''controller/commands/start'', ''controller/commands/stop'', ''controller/commands/reset'',
      ''controller/configuration_files'', ''serial'', ''serial/port'', ''serial/baudrate'',
      ''serial/parity'', ''serial/stopbits'', ''serial/bytesize'', ''serial/rtscts'',
      ''serial/xonxoff'', ''serial/timeout'', ''serial/module'']"

subsection \<open>Executable placeholders (lines 185 to 192)\<close>

text \<open>
  Line 190 iterates over the commands dictionary itself, \<^verbatim>\<open>for cmd_name, cmd in
  self.manifest['controller']['commands']\<close>, so each step yields a key and unpacks that
  string into two variables: \<^verbatim>\<open>ValueError\<close> unless the key has exactly two characters.
  For a two-character key the store goes to the entry named by its first character; when
  that is a new key the dictionary grows and the iteration raises \<^verbatim>\<open>RuntimeError\<close> at
  its next step. \<open>keys\<close> are the keys still to be visited.
\<close>

fun executable_commands_loop ::
  "string \<Rightarrow> yaml \<Rightarrow> string \<Rightarrow> string list \<Rightarrow> (string \<times> yaml) list \<Rightarrow>
     exn + (string \<times> yaml) list" where
  "executable_commands_loop eid efile executables_dir [] commands = Inr commands"
| "executable_commands_loop eid efile executables_dir (key # keys) commands =
     (case key of
        [cmd_name, cmd] \<Rightarrow>
          (case efile of
             YStr file \<Rightarrow>
               (if map_of commands [cmd_name] = None then Inl RuntimeError
                else executable_commands_loop eid efile executables_dir keys
                       (AList.update [cmd_name]
                          (YStr (replace [cmd] (''<!'' @ eid @ ''>'') (join executables_dir file)))
                          commands))
           | other \<Rightarrow> Inl TypeError)
      | other \<Rightarrow> Inl ValueError)"

fun executables_loop ::
  "(yaml \<Rightarrow> string) \<Rightarrow> string \<Rightarrow> yaml list \<Rightarrow> (string \<times> yaml) list \<Rightarrow>
     exn + (string \<times> yaml) list" where
  "executables_loop py_str tmp [] commands = Inr commands"
| "executables_loop py_str tmp (executable # rest) commands =
     (case getitem executable ''id'' of
        Inl e \<Rightarrow> Inl e
      | Inr eid \<Rightarrow>
          (case getitem executable ''file'' of
             Inl e \<Rightarrow> Inl e
           | Inr efile \<Rightarrow>
               (let executables_dir = join tmp CONTROLLER_EXECUTABLES_SUBDIR
                in case executable_commands_loop (format0 py_str eid) efile executables_dir
                          (map fst commands) commands of
                     Inl e \<Rightarrow> Inl e
                   | Inr commands' \<Rightarrow> executables_loop py_str tmp rest commands')))"

subsection \<open>Configuration-file placeholders (lines 195 to 202)\<close>

text \<open>
  Line 200 iterates over \<^verbatim>\<open>commands.items()\<close> and stores the rewritten command under
  its own name. \<^verbatim>\<open>cmd.replace\<close> raises \<^verbatim>\<open>AttributeError\<close> for a command that is not a
  string, before \<^verbatim>\<open>os.path.join\<close> can raise \<^verbatim>\<open>TypeError\<close> for the file name.
  \<open>items\<close> are the entries still to be visited.
\<close>

fun configuration_file_commands_loop ::
  "string \<Rightarrow> yaml \<Rightarrow> string \<Rightarrow> (string \<times> yaml) list \<Rightarrow> (string \<times> yaml) list \<Rightarrow>
     exn + (string \<times> yaml) list" where
  "configuration_file_commands_loop cid cfile configuration_files_dir [] commands = Inr commands"
| "configuration_file_commands_loop cid cfile configuration_files_dir ((cmd_name, cmd) # items)
      commands =
     (case cmd of
        YStr c \<Rightarrow>
          (case cfile of
             YStr file \<Rightarrow>
               configuration_file_commands_loop cid cfile configuration_files_dir items
                 (AList.update cmd_name
                    (YStr (replace c (''<#'' @ cid @ ''>'') (join configuration_files_dir file)))
                    commands)
           | other \<Rightarrow> Inl TypeError)
      | other \<Rightarrow> Inl AttributeError)"

fun configuration_files_loop ::
  "(yaml \<Rightarrow> string) \<Rightarrow> string \<Rightarrow> yaml list \<Rightarrow> (string \<times> yaml) list \<Rightarrow>
     exn + (string \<times> yaml) list" where
  "configuration_files_loop py_str tmp [] commands = Inr commands"
| "configuration_files_loop py_str tmp (configuration_file # rest) commands =
     (case getitem configuration_file ''id'' of
        Inl e \<Rightarrow> Inl e
      | Inr cid \<Rightarrow>
          (case getitem configuration_file ''file'' of
             Inl e \<Rightarrow> Inl e
           | Inr cfile \<Rightarrow>
               (let configuration_files_dir = join tmp CONTROLLER_CONFIGURATION_FILES_SUBDIR
                in case configuration_file_commands_loop (format0 py_str cid) cfile
                          configuration_files_dir commands commands of
                     Inl e \<Rightarrow> Inl e
                   | Inr commands' \<Rightarrow> configuration_files_loop py_str tmp rest commands')))"

text \<open>Lines 184 to 202: both blocks, each guarded by the truth value of its table.\<close>

definition resolve_placeholders ::
  "(yaml \<Rightarrow> string) \<Rightarrow> string \<Rightarrow> yaml \<Rightarrow> yaml \<Rightarrow> (string \<times> yaml) list \<Rightarrow>
     exn + (string \<times> yaml) list" where
  "resolve_placeholders py_str tmp executables configuration_files commands =
     (case (if truthy executables then
              (case py_iter executables of
                 Inl e \<Rightarrow> Inl e
               | Inr entries \<Rightarrow> executables_loop py_str tmp entries commands)
            else Inr commands) of
        Inl e \<Rightarrow> Inl e
      | Inr commands1 \<Rightarrow>
          (if truthy configuration_files then
             (case py_iter configuration_files of
                Inl e \<Rightarrow> Inl e
              | Inr entries \<Rightarrow> configuration_files_loop py_str tmp entries commands1)
           else Inr commands1))"

datatype node_loader = NodeLoader (node_temp_directory: string) (node_manifest: yaml)

text \<open>
  Lines 170 to 205. After the schema walk \<^verbatim>\<open>manifest['controller']['commands']\<close> is a
  mapping (it has been subscripted with \<^verbatim>\<open>'load'\<close>), so the commands are read once;
  \<^verbatim>\<open>manifest['controller']['executables']\<close> is not among the mandatory paths and raises
  \<^verbatim>\<open>KeyError\<close> when absent. The rewritten commands and the serial module path are stored
  back into the manifest.
\<close>

definition node_configure ::
  "(yaml \<Rightarrow> string) \<Rightarrow> string \<Rightarrow> string \<Rightarrow> (string \<Rightarrow> exn + yaml) \<Rightarrow> filesystem \<Rightarrow>
     exn + node_loader" where
  "node_configure py_str cwd tmp yaml_load fs =
     (case read_file cwd (join tmp PROFILE_MANIFEST) fs of
        Inl e \<Rightarrow> Inl e
      | Inr content \<Rightarrow>
     (case yaml_load content of
        Inl e \<Rightarrow> Inl e
      | Inr manifest \<Rightarrow>
     (case node_validate_manifest manifest NODE_MANIFEST_MANDATORY_MEMBERS of
        Inl e \<Rightarrow> Inl e
      | Inr u \<Rightarrow>
     (case getitem manifest ''controller'' of
        Inl e \<Rightarrow> Inl e
      | Inr controller \<Rightarrow>
     (case getitem controller ''executables'' of
        Inl e \<Rightarrow> Inl e
      | Inr executables \<Rightarrow>
     (case getitem controller ''configuration_files'' of
        Inl e \<Rightarrow> Inl e
      | Inr configuration_files \<Rightarrow>
     (case getitem controller ''commands'' of
        Inl e \<Rightarrow> Inl e
      | Inr (YMap commands) \<Rightarrow>
         (case resolve_placeholders py_str tmp executables configuration_files commands of
            Inl e \<Rightarrow> Inl e
          | Inr commands' \<Rightarrow>
         (case getitem manifest ''serial'' of
            Inl e \<Rightarrow> Inl e
          | Inr serial \<Rightarrow>
         (case getitem serial ''module'' of
            Inl e \<Rightarrow> Inl e
          | Inr (YStr module) \<Rightarrow>
             (case setitem controller ''commands'' (YMap commands') of
                Inl e \<Rightarrow> Inl e
              | Inr controller' \<Rightarrow>
             (case setitem serial ''module'' (YStr (join (join tmp SERIAL_SUBDIR) module)) of
                Inl e \<Rightarrow> Inl e
              | Inr serial' \<Rightarrow>
             (case setitem manifest ''controller'' controller' of
                Inl e \<Rightarrow> Inl e
              | Inr manifest1 \<Rightarrow>
             (case setitem manifest1 ''serial'' serial' of
                Inl e \<Rightarrow> Inl e
              | Inr manifest2 \<Rightarrow> Inr (NodeLoader tmp manifest2)))))
          | Inr other \<Rightarrow> Inl TypeError)))
      | Inr other \<Rightarrow> Inl TypeError)))))))"

text \<open>\<^verbatim>\<open>Loader.__init__\<close>: lines 130 to 168 as in the experiment loader, then the above.\<close>

definition node_Loader ::
  "(yaml \<Rightarrow> string) \<Rightarrow> string \<Rightarrow> string \<Rightarrow> (string \<Rightarrow> exn + yaml) \<Rightarrow> archive \<Rightarrow> filesystem \<Rightarrow>
     (exn + node_loader) \<times> filesystem" where
  "node_Loader py_str cwd tmp yaml_load profile_archive fs =
     (let temp_directory = tmp;
          fs1 = mkdir cwd temp_directory fs;
          archive_path = join temp_directory NODE_PROFILE_FILENAME;
          fs2 = write_file cwd archive_path (raw profile_archive) fs1;
          archive_contents = getnames profile_archive
      in if list_ex (\<lambda>elt. elt \<notin> set archive_contents) PROFILE_MANDATORY_MEMBERS then
           (let missing_arguments =
                  filter (\<lambda>argument. argument \<notin> set archive_contents) PROFILE_MANDATORY_MEMBERS
            in (Inl (NodeSetupException ERROR_MISSING_ARGUMENT_IN_ARCHIVE
                       [Text (py_join '' ,'' missing_arguments)]), fs2))
         else
           (case safe_extract cwd (getmembers profile_archive) temp_directory fs2 of
              (Inl e, fs3) \<Rightarrow> (Inl e, fs3)
            | (Inr u, fs3) \<Rightarrow> (node_configure py_str cwd temp_directory yaml_load fs3, fs3)))"

text \<open>\<^verbatim>\<open>Loader.clean\<close>.\<close>

definition node_clean ::
  "string \<Rightarrow> node_loader \<Rightarrow> filesystem \<Rightarrow> (exn + unit) \<times> filesystem" where
  "node_clean cwd self fs = rmtree cwd (node_temp_directory self) fs"

section \<open>Notions used to state the properties\<close>

text \<open>
  Following a list of keys through nested mappings, and whether a node is a mapping that
  contains a key: the reading of a schema path that the schema walk is compared with.
\<close>

fun descend :: "yaml \<Rightarrow> string list \<Rightarrow> yaml option" where
  "descend v [] = Some v"
| "descend v (key # keys) =
     (case v of
        YMap items \<Rightarrow> (case map_of items key of Some x \<Rightarrow> descend x keys | None \<Rightarrow> None)
      | _ \<Rightarrow> None)"

definition has_key :: "yaml \<Rightarrow> string \<Rightarrow> bool" where
  "has_key v key = (case v of YMap items \<Rightarrow> key \<in> fst ` set items | _ \<Rightarrow> False)"




section \<open>Example inputs\<close>

text \<open>
  An experiment archive whose third member climbs out of the workspace \<^verbatim>\<open>/tmp/ws\<close> into
  the sibling directory \<^verbatim>\<open>/tmp/ws_evil\<close>, and the parser's reading of its manifest.
\<close>

definition sibling_archive :: archive where
  "sibling_archive =
     Archive ''bytes''
       [TarInfo ''firmwares'' Dir, TarInfo ''manifest.yml'' (File ''text''),
        TarInfo ''../ws_evil/x'' (File ''payload'')]"

definition empty_experiment_manifest :: yaml where
  "empty_experiment_manifest = YMap [(''firmwares'', YSeq []), (''schedule'', YSeq [])]"

text \<open>Archives that lack one mandatory member.\<close>

definition archive_without_executables :: archive where
  "archive_without_executables =
     Archive ''bytes''
       [TarInfo ''controller'' Dir, TarInfo ''controller/configuration_files'' Dir,
        TarInfo ''serial'' Dir, TarInfo ''manifest.yml'' (File ''text'')]"

definition archive_without_firmwares :: archive where
  "archive_without_firmwares = Archive ''bytes'' [TarInfo ''manifest.yml'' (File ''text'')]"

text \<open>A node-profile manifest with every mandatory field but \<^verbatim>\<open>serial/baudrate\<close>.\<close>

definition node_manifest_without_baudrate :: yaml where
  "node_manifest_without_baudrate =
     YMap
       [(''hardware'', YStr ''board''),
        (''controller'',
           YMap
             [(''commands'',
                 YMap
                   [(''load'', YStr ''load''), (''start'', YStr ''start''),
                    (''stop'', YStr ''stop''), (''reset'', YStr ''reset'')]),
              (''executables'', YNull),
              (''configuration_files'', YNull)]),
        (''serial'',
           YMap
             [(''port'', YStr ''/dev/ttyUSB0''), (''parity'', YStr ''N''),
              (''stopbits'', YInt 1), (''bytesize'', YInt 8), (''rtscts'', YInt 0),
              (''xonxoff'', YInt 0), (''timeout'', YInt 1), (''module'', YStr ''frames.py'')])]"

text \<open>
  A complete node-profile manifest, given its two tables, and a node-profile archive with
  one executable and no configuration file.
\<close>

definition node_manifest_with :: "yaml \<Rightarrow> yaml \<Rightarrow> yaml" where
  "node_manifest_with executables configuration_files =
     YMap
       [(''hardware'', YStr ''board''),
        (''controller'',
           YMap
             [(''commands'',
                 YMap
                   [(''load'', YStr ''flash <#cfg1>''), (''start'', YStr ''<!cmd1> --mode=fast''),
                    (''stop'', YStr ''stop''), (''reset'', YStr ''reset'')]),
              (''executables'', executables),
              (''configuration_files'', configuration_files)]),
        (''serial'',
           YMap
             [(''port'', YStr ''/dev/ttyUSB0''), (''baudrate'', YInt 115200),
              (''parity'', YStr ''N''), (''stopbits'', YInt 1), (''bytesize'', YInt 8),
              (''rtscts'', YInt 0), (''xonxoff'', YInt 0), (''timeout'', YInt 1),
              (''module'', YStr ''frames.py'')])]"

definition node_archive :: archive where
  "node_archive =
     Archive ''bytes''
       [TarInfo ''controller'' Dir, TarInfo ''controller/executables'' Dir,
        TarInfo ''controller/configuration_files'' Dir, TarInfo ''serial'' Dir,
        TarInfo ''manifest.yml'' (File ''text''),
        TarInfo ''controller/executables/run.sh'' (File ''script'')]"





section \<open>Safe extraction\<close>

lemmas path_defs =
  is_within_directory_def abspath_def join_def isabs_def normpath_def initial_slashes_def

lemmas experiment_constants =
  EXPERIMENT_PROFILE_FILENAME_def FIRMWARES_SUBDIR_def EXPERIMENT_MANIFEST_def
  CONFIGURATION_MANDATORY_MEMBERS_def EXPERIMENT_MANIFEST_MANDATORY_MEMBERS_def

lemmas node_constants =
  NODE_PROFILE_FILENAME_def CONTROLLER_SUBDIR_def CONTROLLER_EXECUTABLES_SUBDIR_def
  CONTROLLER_CONFIGURATION_FILES_SUBDIR_def SERIAL_SUBDIR_def PROFILE_MANIFEST_def
  PROFILE_MANDATORY_MEMBERS_def NODE_MANIFEST_MANDATORY_MEMBERS_def

lemmas loader_defs =
  node_Loader_def node_configure_def experiment_Loader_def experiment_configure_def
  safe_extract_def extractall_def extract_member_def mkdir_def write_file_def read_file_def
  isfile_def getnames_def getitem_def setitem_def py_iter_def truthy_def format0_def
  resolve_placeholders_def replace_def Let_def

lemma check_members_reject:
  "m \<in> set tar \<Longrightarrow> \<not> is_within_directory cwd path (join path (name m)) \<Longrightarrow>
   check_members cwd path tar = Inl (Exception ''Attempted Path Traversal in Tar File'')"
  by (induction tar) (auto simp: Let_def)

text \<open>
  C1. The check compares the two canonical paths as strings: the workspace
  \<^verbatim>\<open>/tmp/ws\<close> is a character prefix of \<^verbatim>\<open>/tmp/ws_evil/x\<close>, so the member
  \<^verbatim>\<open>../ws_evil/x\<close> passes \<^verbatim>\<open>is_within_directory\<close>, the experiment loader returns a
  loader object, and a file has been written at a path that does not lie within the
  workspace.
\<close>

theorem safe_extract_accepts_prefix_sibling:
  "is_within_directory ''/'' ''/tmp/ws'' (join ''/tmp/ws'' ''../ws_evil/x'')
   \<and> fst (experiment_Loader ''/'' ''/tmp/ws'' (\<lambda>text. Inr empty_experiment_manifest)
            sibling_archive Map.empty)
       = Inr (ExperimentLoader ''/tmp/ws'' empty_experiment_manifest [] (YSeq []))
   \<and> snd (experiment_Loader ''/'' ''/tmp/ws'' (\<lambda>text. Inr empty_experiment_manifest)
            sibling_archive Map.empty) ''/tmp/ws_evil/x''
       = Some (File ''payload'')
   \<and> \<not> lies_within (abspath ''/'' ''/tmp/ws'') ''/tmp/ws_evil/x''"
  by (simp add: sibling_archive_def empty_experiment_manifest_def experiment_Loader_def
      experiment_configure_def safe_extract_def extractall_def extract_member_def
      lies_within_def path_defs mkdir_def write_file_def read_file_def getnames_def
      experiment_constants getitem_def py_iter_def Let_def)

text \<open>
  C2. When some member of the archive fails the check, \<^verbatim>\<open>safe_extract\<close> raises the
  path-traversal exception and the file system is the one it was called with: the check
  loop ends before \<^verbatim>\<open>extractall\<close> starts, so no member has been written.
\<close>

theorem safe_extract_atomic:
  assumes "m \<in> set tar"
    and "\<not> is_within_directory cwd path (join path (name m))"
  shows "safe_extract cwd tar path fs =
           (Inl (Exception ''Attempted Path Traversal in Tar File''), fs)"
  using check_members_reject [OF assms] by (simp add: safe_extract_def)

theorem safe_extract_atomic_witness:
  "safe_extract ''/''
      [TarInfo ''manifest.yml'' (File ''m''), TarInfo ''../../etc/passwd'' (File ''x'')]
      ''/tmp/ws'' Map.empty
    = (Inl (Exception ''Attempted Path Traversal in Tar File''), Map.empty)"
  using safe_extract_atomic [of "TarInfo ''../../etc/passwd'' (File ''x'')"
     "[TarInfo ''manifest.yml'' (File ''m''), TarInfo ''../../etc/passwd'' (File ''x'')]"
     "''/''" "''/tmp/ws''" Map.empty]
  by (simp add: path_defs)

section \<open>Mandatory archive members\<close>

lemma list_ex_absent:
  "list_ex (\<lambda>elt. elt \<notin> set contents) mandatory \<longleftrightarrow>
     (\<exists>elt \<in> set mandatory. elt \<notin> set contents)"
  by (simp add: list_ex_iff)

text \<open>
  C3. When the archive's member names lack a mandatory member, either loader raises its
  missing-member exception before \<^verbatim>\<open>safe_extract\<close> is called: the file system holds the
  workspace directory and the saved archive and nothing else new. The exception carries
  the list \<open>missing\<close> (the experiment loader as a list next to the archive's names, the
  node-profile loader joined with \<^verbatim>\<open>' ,'\<close>), whose elements are the mandatory members
  absent from the archive and only those.
\<close>

theorem missing_members_fail_before_extraction:
  "((\<exists>elt \<in> set CONFIGURATION_MANDATORY_MEMBERS. elt \<notin> set (getnames a)) \<longrightarrow>
      (\<exists>missing.
         experiment_Loader cwd tmp yaml_load a fs =
           (Inl (ExperimentSetupException ERROR_MISSING_ARGUMENT_IN_ARCHIVE
                   [Text ''missing elements: '', ListText missing,
                    Text '' of archive_contents: '', ListText (getnames a)]),
            write_file cwd (join tmp EXPERIMENT_PROFILE_FILENAME) (raw a) (mkdir cwd tmp fs))
         \<and> (\<forall>n. n \<in> set missing \<longleftrightarrow>
                 n \<in> set CONFIGURATION_MANDATORY_MEMBERS \<and> n \<notin> set (getnames a))))
   \<and> ((\<exists>elt \<in> set PROFILE_MANDATORY_MEMBERS. elt \<notin> set (getnames a)) \<longrightarrow>
      (\<exists>missing.
         node_Loader py_str cwd tmp yaml_load a fs =
           (Inl (NodeSetupException ERROR_MISSING_ARGUMENT_IN_ARCHIVE
                   [Text (py_join '' ,'' missing)]),
            write_file cwd (join tmp NODE_PROFILE_FILENAME) (raw a) (mkdir cwd tmp fs))
         \<and> (\<forall>n. n \<in> set missing \<longleftrightarrow>
                 n \<in> set PROFILE_MANDATORY_MEMBERS \<and> n \<notin> set (getnames a))))"
proof (intro conjI impI)
  assume "\<exists>elt \<in> set CONFIGURATION_MANDATORY_MEMBERS. elt \<notin> set (getnames a)"
  then have "list_ex (\<lambda>elt. elt \<notin> set (getnames a)) CONFIGURATION_MANDATORY_MEMBERS"
    by (simp add: list_ex_absent)
  then show "\<exists>missing.
         experiment_Loader cwd tmp yaml_load a fs =
           (Inl (ExperimentSetupException ERROR_MISSING_ARGUMENT_IN_ARCHIVE
                   [Text ''missing elements: '', ListText missing,
                    Text '' of archive_contents: '', ListText (getnames a)]),
            write_file cwd (join tmp EXPERIMENT_PROFILE_FILENAME) (raw a) (mkdir cwd tmp fs))
         \<and> (\<forall>n. n \<in> set missing \<longleftrightarrow>
                 n \<in> set CONFIGURATION_MANDATORY_MEMBERS \<and> n \<notin> set (getnames a))"
    by (intro exI [of _ "filter (\<lambda>elt. elt \<notin> set (getnames a))
                           CONFIGURATION_MANDATORY_MEMBERS"])
       (simp add: experiment_Loader_def Let_def)
next
  assume "\<exists>elt \<in> set PROFILE_MANDATORY_MEMBERS. elt \<notin> set (getnames a)"
  then have "list_ex (\<lambda>elt. elt \<notin> set (getnames a)) PROFILE_MANDATORY_MEMBERS"
    by (simp add: list_ex_absent)
  then show "\<exists>missing.
         node_Loader py_str cwd tmp yaml_load a fs =
           (Inl (NodeSetupException ERROR_MISSING_ARGUMENT_IN_ARCHIVE
                   [Text (py_join '' ,'' missing)]),
            write_file cwd (join tmp NODE_PROFILE_FILENAME) (raw a) (mkdir cwd tmp fs))
         \<and> (\<forall>n. n \<in> set missing \<longleftrightarrow>
                 n \<in> set PROFILE_MANDATORY_MEMBERS \<and> n \<notin> set (getnames a))"
    by (intro exI [of _ "filter (\<lambda>elt. elt \<notin> set (getnames a))
                           PROFILE_MANDATORY_MEMBERS"])
       (simp add: node_Loader_def Let_def)
qed

text \<open>
  The node-profile archive without \<^verbatim>\<open>controller/executables\<close> is refused with exactly
  that name, and the experiment archive without \<^verbatim>\<open>firmwares\<close> likewise.
\<close>

theorem missing_members_fail_before_extraction_witness:
  "fst (node_Loader (\<lambda>v. ''?'') ''/'' ''/tmp/ws'' (\<lambda>text. Inl YAMLError)
          archive_without_executables Map.empty)
     = Inl (NodeSetupException ERROR_MISSING_ARGUMENT_IN_ARCHIVE [Text ''controller/executables''])
   \<and> snd (node_Loader (\<lambda>v. ''?'') ''/'' ''/tmp/ws'' (\<lambda>text. Inl YAMLError)
          archive_without_executables Map.empty)
     = write_file ''/'' (join ''/tmp/ws'' NODE_PROFILE_FILENAME) ''bytes''
         (mkdir ''/'' ''/tmp/ws'' Map.empty)
   \<and> fst (experiment_Loader ''/'' ''/tmp/ws'' (\<lambda>text. Inl YAMLError)
          archive_without_firmwares Map.empty)
     = Inl (ExperimentSetupException ERROR_MISSING_ARGUMENT_IN_ARCHIVE
              [Text ''missing elements: '', ListText [''firmwares''],
               Text '' of archive_contents: '', ListText [''manifest.yml'']])
   \<and> snd (experiment_Loader ''/'' ''/tmp/ws'' (\<lambda>text. Inl YAMLError)
          archive_without_firmwares Map.empty)
     = write_file ''/'' (join ''/tmp/ws'' EXPERIMENT_PROFILE_FILENAME) ''bytes''
         (mkdir ''/'' ''/tmp/ws'' Map.empty)"
proof -
  have n: "\<exists>elt \<in> set PROFILE_MANDATORY_MEMBERS.
             elt \<notin> set (getnames archive_without_executables)"
    by (simp add: node_constants getnames_def archive_without_executables_def)
  have e: "\<exists>elt \<in> set CONFIGURATION_MANDATORY_MEMBERS.
             elt \<notin> set (getnames archive_without_firmwares)"
    by (simp add: experiment_constants getnames_def archive_without_firmwares_def)
  from missing_members_fail_before_extraction [where a = archive_without_executables
      and cwd = "''/''" and tmp = "''/tmp/ws''" and yaml_load = "\<lambda>text. Inl YAMLError"
      and fs = Map.empty and py_str = "\<lambda>v. ''?''"] n
  obtain missing_n where
    "node_Loader (\<lambda>v. ''?'') ''/'' ''/tmp/ws'' (\<lambda>text. Inl YAMLError)
       archive_without_executables Map.empty
     = (Inl (NodeSetupException ERROR_MISSING_ARGUMENT_IN_ARCHIVE
               [Text (py_join '' ,'' missing_n)]),
        write_file ''/'' (join ''/tmp/ws'' NODE_PROFILE_FILENAME)
          (raw archive_without_executables) (mkdir ''/'' ''/tmp/ws'' Map.empty))"
    by blast
  then have tn: "snd (node_Loader (\<lambda>v. ''?'') ''/'' ''/tmp/ws'' (\<lambda>text. Inl YAMLError)
          archive_without_executables Map.empty)
     = write_file ''/'' (join ''/tmp/ws'' NODE_PROFILE_FILENAME) ''bytes''
         (mkdir ''/'' ''/tmp/ws'' Map.empty)"
    by (simp add: archive_without_executables_def)
  from missing_members_fail_before_extraction [where a = archive_without_firmwares
      and cwd = "''/''" and tmp = "''/tmp/ws''" and yaml_load = "\<lambda>text. Inl YAMLError"
      and fs = Map.empty and py_str = "\<lambda>v. ''?''"] e
  obtain missing_e where
    "experiment_Loader ''/'' ''/tmp/ws'' (\<lambda>text. Inl YAMLError)
       archive_without_firmwares Map.empty
     = (Inl (ExperimentSetupException ERROR_MISSING_ARGUMENT_IN_ARCHIVE
               [Text ''missing elements: '', ListText missing_e,
                Text '' of archive_contents: '', ListText (getnames archive_without_firmwares)]),
        write_file ''/'' (join ''/tmp/ws'' EXPERIMENT_PROFILE_FILENAME)
          (raw archive_without_firmwares) (mkdir ''/'' ''/tmp/ws'' Map.empty))"
    by blast
  then have te: "snd (experiment_Loader ''/'' ''/tmp/ws'' (\<lambda>text. Inl YAMLError)
          archive_without_firmwares Map.empty)
     = write_file ''/'' (join ''/tmp/ws'' EXPERIMENT_PROFILE_FILENAME) ''bytes''
         (mkdir ''/'' ''/tmp/ws'' Map.empty)"
    by (simp add: archive_without_firmwares_def)
  show ?thesis
    using tn te
    by (simp add: node_Loader_def experiment_Loader_def Let_def node_constants
        experiment_constants getnames_def archive_without_executables_def
        archive_without_firmwares_def)
qed

section \<open>Schema walk\<close>

lemma getitem_Inl_iff: "(\<exists>e. getitem v key = Inl e) \<longleftrightarrow> \<not> has_key v key"
proof -
  have "has_key v key \<longleftrightarrow> (\<exists>items. v = YMap items \<and> map_of items key \<noteq> None)"
    by (cases v) (simp_all add: has_key_def map_of_eq_None_iff)
  then show ?thesis
    by (cases v) (auto simp: getitem_def split: option.splits)
qed

lemma walk_None_iff: "walk v keys = None \<longleftrightarrow> descend v keys \<noteq> None"
  by (induction keys arbitrary: v)
     (auto simp: getitem_def split: yaml.splits option.splits sum.splits)

lemma walk_first_failure:
  "descend v walked = Some cur \<Longrightarrow> \<not> has_key cur segment \<Longrightarrow>
   walk v (walked @ segment # todo) = Some segment"
proof (induction walked arbitrary: v)
  case Nil
  then obtain e where "getitem v segment = Inl e"
    using getitem_Inl_iff [of v segment] by auto
  then show ?case by simp
next
  case (Cons key keys)
  then show ?case
    by (auto simp: getitem_def split: yaml.splits option.splits)
qed

lemma experiment_validate_skip:
  "\<forall>q \<in> set before. walk manifest (py_split CHR ''/'' q) = None \<Longrightarrow>
   experiment_validate_manifest manifest (before @ rest) =
     experiment_validate_manifest manifest rest"
  by (induction before) auto

lemma node_validate_skip:
  "\<forall>q \<in> set before. walk manifest (py_split CHR ''/'' q) = None \<Longrightarrow>
   node_validate_manifest manifest (before @ rest) = node_validate_manifest manifest rest"
  by (induction before) auto

lemma node_validate_all:
  "node_validate_manifest manifest paths = Inr () \<Longrightarrow> q \<in> set paths \<Longrightarrow>
   walk manifest (py_split CHR ''/'' q) = None"
  by (induction paths) (auto split: option.splits)

text \<open>
  After the schema walk of the node-profile loader the commands are a mapping, so the
  branch of \<open>node_configure\<close> for any other shape of
  \<^verbatim>\<open>manifest['controller']['commands']\<close> is never taken.
\<close>

lemma node_validated_commands_mapping:
  assumes "node_validate_manifest manifest NODE_MANIFEST_MANDATORY_MEMBERS = Inr ()"
  shows "\<exists>controller commands.
           getitem manifest ''controller'' = Inr controller
           \<and> getitem controller ''commands'' = Inr (YMap commands)"
proof -
  have "walk manifest (py_split CHR ''/'' ''controller/commands/load'') = None"
    by (rule node_validate_all [OF assms]) (simp add: NODE_MANIFEST_MANDATORY_MEMBERS_def)
  then have "walk manifest [''controller'', ''commands'', ''load''] = None"
    by simp
  then show ?thesis
    by (auto simp: getitem_def split: sum.splits yaml.splits option.splits)
qed

text \<open>
  C4, as the node-profile loader behaves: for a manifest without \<^verbatim>\<open>serial/baudrate\<close>
  the text it hands to its message template is \<^verbatim>\<open>baudrate\<close> alone; the path
  \<^verbatim>\<open>serial/baudrate\<close> is not part of it.
\<close>

theorem node_missing_field_names_segment_only:
  "node_validate_manifest node_manifest_without_baudrate NODE_MANIFEST_MANDATORY_MEMBERS
     = Inl (NodeSetupException ERROR_MISSING_ARGUMENT_IN_MANIFEST [Text ''baudrate''])
   \<and> \<not> sublist ''serial/baudrate'' ''baudrate''"
proof -
  have "\<not> sublist ''serial/baudrate'' ''baudrate''"
    using sublist_length_le [of "''serial/baudrate''" "''baudrate''"] by auto
  then show ?thesis
    by (simp add: node_manifest_without_baudrate_def NODE_MANIFEST_MANDATORY_MEMBERS_def
        getitem_def)
qed

text \<open>
  C4, amended. Let the paths before \<open>path\<close> all resolve, and let \<open>segment\<close> be the first
  segment of \<open>path\<close> at which the node reached so far is not a mapping containing the
  key. Then validation fails there, whatever paths follow. The experiment loader's
  exception names the segment and the full path; the node-profile loader's exception
  names the segment only.
\<close>

theorem validate_manifest_first_failure:
  assumes before: "\<forall>q \<in> set before. descend manifest (py_split CHR ''/'' q) \<noteq> None"
    and path: "py_split CHR ''/'' path = walked @ segment # todo"
    and cur: "descend manifest walked = Some cur"
    and missing: "\<not> has_key cur segment"
  shows "experiment_validate_manifest manifest (before @ path # after) =
           Inl (ExperimentSetupException ERROR_MISSING_ARGUMENT_IN_ARCHIVE
                  [Text (''element missing: '' @ segment @ '' in: '' @ path)])
       \<and> node_validate_manifest manifest (before @ path # after) =
           Inl (NodeSetupException ERROR_MISSING_ARGUMENT_IN_MANIFEST [Text segment])"
proof -
  from before have skip: "\<forall>q \<in> set before. walk manifest (py_split CHR ''/'' q) = None"
    by (simp add: walk_None_iff)
  have "walk manifest (py_split CHR ''/'' path) = Some segment"
    using walk_first_failure [OF cur missing] path by simp
  then show ?thesis
    by (simp add: experiment_validate_skip [OF skip] node_validate_skip [OF skip])
qed

text \<open>
  The experiment manifest without \<^verbatim>\<open>schedule\<close> and the node-profile manifest without
  \<^verbatim>\<open>serial/baudrate\<close>.
\<close>

theorem validate_manifest_first_failure_witness:
  "experiment_validate_manifest (YMap [(''firmwares'', YSeq [])])
       ([''firmwares''] @ ''schedule'' # [])
     = Inl (ExperimentSetupException ERROR_MISSING_ARGUMENT_IN_ARCHIVE
              [Text ''element missing: schedule in: schedule''])
   \<and> node_validate_manifest node_manifest_without_baudrate
       ([''hardware'', ''controller'', ''controller/commands'', ''controller/commands/load'',
         ''controller/commands/start'', ''controller/commands/stop'',
         ''controller/commands/reset'', ''controller/configuration_files'', ''serial'',
         ''serial/port'']
        @ ''serial/baudrate''
        # [''serial/parity'', ''serial/stopbits'', ''serial/bytesize'', ''serial/rtscts'',
           ''serial/xonxoff'', ''serial/timeout'', ''serial/module''])
     = Inl (NodeSetupException ERROR_MISSING_ARGUMENT_IN_MANIFEST [Text ''baudrate''])"
proof -
  have a: "experiment_validate_manifest (YMap [(''firmwares'', YSeq [])])
       ([''firmwares''] @ ''schedule'' # [])
     = Inl (ExperimentSetupException ERROR_MISSING_ARGUMENT_IN_ARCHIVE
              [Text ''element missing: schedule in: schedule''])"
    using validate_manifest_first_failure [where before = "[''firmwares'']"
        and manifest = "YMap [(''firmwares'', YSeq [])]" and path = "''schedule''"
        and walked = "[]" and segment = "''schedule''" and todo = "[]"
        and cur = "YMap [(''firmwares'', YSeq [])]" and after = "[]"]
    by (simp add: has_key_def)
  have b: "node_validate_manifest node_manifest_without_baudrate
       ([''hardware'', ''controller'', ''controller/commands'', ''controller/commands/load'',
         ''controller/commands/start'', ''controller/commands/stop'',
         ''controller/commands/reset'', ''controller/configuration_files'', ''serial'',
         ''serial/port'']
        @ ''serial/baudrate''
        # [''serial/parity'', ''serial/stopbits'', ''serial/bytesize'', ''serial/rtscts'',
           ''serial/xonxoff'', ''serial/timeout'', ''serial/module''])
     = Inl (NodeSetupException ERROR_MISSING_ARGUMENT_IN_MANIFEST [Text ''baudrate''])"
    using validate_manifest_first_failure [where before =
          "[''hardware'', ''controller'', ''controller/commands'', ''controller/commands/load'',
            ''controller/commands/start'', ''controller/commands/stop'',
            ''controller/commands/reset'', ''controller/configuration_files'', ''serial'',
            ''serial/port'']"
        and manifest = node_manifest_without_baudrate and path = "''serial/baudrate''"
        and walked = "[''serial'']" and segment = "''baudrate''" and todo = "[]"
        and cur = "YMap
             [(''port'', YStr ''/dev/ttyUSB0''), (''parity'', YStr ''N''),
              (''stopbits'', YInt 1), (''bytesize'', YInt 8), (''rtscts'', YInt 0),
              (''xonxoff'', YInt 0), (''timeout'', YInt 1), (''module'', YStr ''frames.py'')]"]
    by (simp add: has_key_def node_manifest_without_baudrate_def)
  from a b show ?thesis by blast
qed

section \<open>Firmware registration\<close>

















section \<open>Placeholder resolution\<close>

lemma executable_commands_loop_raises:
  "k \<in> set keys \<Longrightarrow> length k \<noteq> 2 \<Longrightarrow>
   isl (executable_commands_loop eid efile dir keys commands)"
proof (induction keys arbitrary: commands)
  case Nil
  then show ?case by simp
next
  case (Cons key keys)
  show ?case
  proof (cases "length key = 2")
    case False
    then show ?thesis
      by (auto split: list.splits)
  next
    case True
    with Cons.prems have "k \<in> set keys" by auto
    from Cons.IH [OF this Cons.prems(2)] show ?thesis
      by (auto split: list.splits yaml.splits)
  qed
qed

lemma executables_loop_raises:
  assumes "entries \<noteq> []" and "k \<in> fst ` set commands" and "length k \<noteq> 2"
  shows "isl (executables_loop py_str tmp entries commands)"
proof -
  from assms(1) obtain e rest where entries: "entries = e # rest"
    by (cases entries) auto
  from assms(2) have "k \<in> set (map fst commands)" by simp
  from executable_commands_loop_raises [OF this assms(3)]
  have inner: "\<exists>err. executable_commands_loop eid efile dir (map fst commands) commands = Inl err"
    for eid efile dir
    by (auto simp: isl_def)
  show ?thesis
  proof (cases "getitem e ''id''")
    case (Inl err)
    then show ?thesis by (simp add: entries)
  next
    case eid: (Inr eid)
    show ?thesis
    proof (cases "getitem e ''file''")
      case (Inl err)
      then show ?thesis by (simp add: entries eid)
    next
      case efile: (Inr efile)
      from inner obtain err where
        "executable_commands_loop (format0 py_str eid) efile
           (join tmp CONTROLLER_EXECUTABLES_SUBDIR) (map fst commands) commands = Inl err"
        by blast
      then show ?thesis by (simp add: entries eid efile)
    qed
  qed
qed

text \<open>
  C6. With the executable entry \<^verbatim>\<open>{id: cmd1, file: run.sh}\<close> and the \<^verbatim>\<open>start\<close> command
  \<^verbatim>\<open><!cmd1> --mode=fast\<close>, the node-profile loader does not return: line 190 unpacks the
  key \<^verbatim>\<open>load\<close> of the commands dictionary into two variables and raises
  \<^verbatim>\<open>ValueError\<close>. By \<open>executables_loop_raises\<close> the loop raises for every non-empty
  executable table, since the mandatory command names do not have two characters.
\<close>

theorem executable_placeholders_raise:
  "fst (node_Loader (\<lambda>v. ''?'') ''/'' ''/tmp/ws''
          (\<lambda>text. Inr (node_manifest_with
                          (YSeq [YMap [(''id'', YStr ''cmd1''), (''file'', YStr ''run.sh'')]])
                          YNull))
          node_archive Map.empty)
     = Inl ValueError"
  by (simp add: loader_defs node_constants path_defs node_manifest_with_def node_archive_def)

















section \<open>Releasing the workspace\<close>

text \<open>
  C8, as the loaders behave: \<^verbatim>\<open>clean\<close> on a workspace that a first \<^verbatim>\<open>clean\<close> has
  removed, or that never existed, raises \<^verbatim>\<open>FileNotFoundError\<close>.
\<close>

theorem clean_twice_raises:
  "fst (experiment_clean ''/'' (ExperimentLoader ''/tmp/ws'' YNull [] YNull)
          (snd (experiment_clean ''/'' (ExperimentLoader ''/tmp/ws'' YNull [] YNull)
                  [''/tmp/ws'' \<mapsto> Dir, ''/tmp/ws/manifest.yml'' \<mapsto> File ''text''])))
     = Inl FileNotFoundError
   \<and> fst (node_clean ''/'' (NodeLoader ''/tmp/ws'' YNull) Map.empty) = Inl FileNotFoundError"
  by (simp add: experiment_clean_def node_clean_def rmtree_def lies_within_def path_defs Let_def)

text \<open>
  C8, amended. On an existing workspace directory \<^verbatim>\<open>clean\<close> succeeds and removes
  exactly the paths within it; a second \<^verbatim>\<open>clean\<close> raises \<^verbatim>\<open>FileNotFoundError\<close> and
  changes nothing.
\<close>

theorem clean_removes_then_raises:
  assumes "fs (abspath cwd tmp) = Some Dir"
  shows "\<exists>fs'. node_clean cwd (NodeLoader tmp m) fs = (Inr (), fs')
           \<and> experiment_clean cwd (ExperimentLoader tmp m fw sch) fs = (Inr (), fs')
           \<and> (\<forall>p. fs' p = (if lies_within (abspath cwd tmp) p then None else fs p))
           \<and> node_clean cwd (NodeLoader tmp m) fs' = (Inl FileNotFoundError, fs')
           \<and> experiment_clean cwd (ExperimentLoader tmp m fw sch) fs'
                = (Inl FileNotFoundError, fs')"
proof -
  let ?fs' = "\<lambda>p. if lies_within (abspath cwd tmp) p then None else fs p"
  have gone: "?fs' (abspath cwd tmp) = None"
    by (simp add: lies_within_def)
  have first: "rmtree cwd tmp fs = (Inr (), ?fs')"
    using assms by (simp add: rmtree_def Let_def)
  have second: "rmtree cwd tmp ?fs' = (Inl FileNotFoundError, ?fs')"
    using gone by (simp add: rmtree_def Let_def)
  show ?thesis
    unfolding node_clean_def experiment_clean_def node_loader.sel experiment_loader.sel
    using first second by (intro exI [of _ ?fs']) simp
qed

text \<open>
  A workspace holding a manifest.
\<close>

theorem clean_removes_then_raises_witness:
  "fst (node_clean ''/'' (NodeLoader ''/tmp/ws'' YNull)
          [''/tmp/ws'' \<mapsto> Dir, ''/tmp/ws/manifest.yml'' \<mapsto> File ''text'']) = Inr ()
   \<and> snd (node_clean ''/'' (NodeLoader ''/tmp/ws'' YNull)
          [''/tmp/ws'' \<mapsto> Dir, ''/tmp/ws/manifest.yml'' \<mapsto> File ''text''])
        ''/tmp/ws/manifest.yml'' = None
   \<and> fst (node_clean ''/'' (NodeLoader ''/tmp/ws'' YNull)
            (snd (node_clean ''/'' (NodeLoader ''/tmp/ws'' YNull)
               [''/tmp/ws'' \<mapsto> Dir, ''/tmp/ws/manifest.yml'' \<mapsto> File ''text''])))
        = Inl FileNotFoundError"
proof -
  have "[''/tmp/ws'' \<mapsto> Dir, ''/tmp/ws/manifest.yml'' \<mapsto> File ''text'']
          (abspath ''/'' ''/tmp/ws'') = Some Dir"
    by (simp add: path_defs)
  from clean_removes_then_raises [of
      "[''/tmp/ws'' \<mapsto> Dir, ''/tmp/ws/manifest.yml'' \<mapsto> File ''text'']" "''/''" "''/tmp/ws''"
      YNull "[]" YNull, OF this]
  obtain fs' where
    "node_clean ''/'' (NodeLoader ''/tmp/ws'' YNull)
       [''/tmp/ws'' \<mapsto> Dir, ''/tmp/ws/manifest.yml'' \<mapsto> File ''text''] = (Inr (), fs')"
    "\<forall>p. fs' p = (if lies_within (abspath ''/'' ''/tmp/ws'') p then None
                   else [''/tmp/ws'' \<mapsto> Dir, ''/tmp/ws/manifest.yml'' \<mapsto> File ''text''] p)"
    "node_clean ''/'' (NodeLoader ''/tmp/ws'' YNull) fs' = (Inl FileNotFoundError, fs')"
    by blast
  then show ?thesis
    by (simp add: lies_within_def path_defs)
qed

end
